theory Spec2Isabelle
  imports Complex_Main "HOL-Library.AList"
begin

section \<open>The receipt parser's output recovery (expense\_tracker.py, process\_receipt)\<close>

text \<open>
  The development embeds lines 75 to 133 of \<^verbatim>\<open>process_receipt\<close>: the envelope
  extraction of the JSON block from the model's output, the decoding, the repair of the
  \<^verbatim>\<open>total\<close> field, and the two failure exits. The text generation above line 75 is
  an external service; its result \<^verbatim>\<open>text_output\<close> is an input here, next to
  \<^verbatim>\<open>receipt_text\<close>.

  Strings are lists of 8-bit characters, read as the code points below 256. The
  character classes of the regular expressions and of \<^verbatim>\<open>float\<close> are written
  out for that range.
\<close>

subsection \<open>Python floats\<close>

text \<open>
  A float is a binary64 value: a finite one is given by its exact rational value, and
  every operation rounds its exact result to the nearest binary64 value, ties to the even
  significand (\<open>to_double\<close>). The sign of zero is not represented (Python compares
  \<^verbatim>\<open>-0.0 == 0.0\<close> as equal).
\<close>

datatype pyfloat = Fin rat | PInf | NInf | NaN

function bit_length :: "int \<Rightarrow> nat" where
  \<comment> \<open>\<^verbatim>\<open>int.bit_length\<close> of a non-negative integer\<close>
  "bit_length n = (if n \<le> 0 then 0 else Suc (bit_length (n div 2)))"
  by pat_completeness auto
termination
  by (relation "measure nat") auto

declare bit_length.simps [simp del]

definition rhe_div :: "int \<Rightarrow> int \<Rightarrow> int" where
  \<comment> \<open>the integer nearest to \<open>n / d\<close> (for \<open>d > 0\<close>), a tie going to the even one\<close>
  "rhe_div n d =
     (let q = n div d; r = n mod d
      in if 2 * r < d then q
         else if d < 2 * r then q + 1
         else if even q then q else q + 1)"

definition floor_log2 :: "int \<Rightarrow> int \<Rightarrow> int" where
  \<comment> \<open>for \<open>a > 0\<close> and \<open>d > 0\<close>: the \<open>e\<close> with \<open>2 ^ e \<le> a / d < 2 ^ (e + 1)\<close>\<close>
  "floor_log2 a d =
     (let e0 = int (bit_length a) - int (bit_length d)
      in if (if 0 \<le> e0 then d * 2 ^ nat e0 \<le> a else d \<le> a * 2 ^ nat (- e0))
         then e0 else e0 - 1)"

definition to_double :: "rat \<Rightarrow> pyfloat" where
  \<comment> \<open>the significand \<open>m\<close> has 53 bits at the exponent \<open>e\<close> of the value, or fewer at the
      least exponent; a result of \<open>2 ^ 1024\<close> or more is an infinity\<close>
  "to_double x =
     (let (n, d) = quotient_of x; a = \<bar>n\<bar>
      in if a = 0 then Fin 0
         else
           let e = max (floor_log2 a d) (- 1022);
               sh = e - 52;
               m = rhe_div (a * 2 ^ nat (- sh)) (d * 2 ^ nat sh)
           in if 971 < sh \<or> (sh = 971 \<and> m = 2 ^ 53) then (if 0 < n then PInf else NInf)
              else
                let r = (if 0 \<le> sh then of_int (m * 2 ^ nat sh) else Fract m (2 ^ nat (- sh)))
                in Fin (if 0 < n then r else - r))"

fun fmul :: "pyfloat \<Rightarrow> pyfloat \<Rightarrow> pyfloat" where
  "fmul NaN _ = NaN"
| "fmul _ NaN = NaN"
| "fmul (Fin a) (Fin b) = to_double (a * b)"
| "fmul (Fin a) PInf = (if a = 0 then NaN else if 0 < a then PInf else NInf)"
| "fmul (Fin a) NInf = (if a = 0 then NaN else if 0 < a then NInf else PInf)"
| "fmul PInf (Fin b) = (if b = 0 then NaN else if 0 < b then PInf else NInf)"
| "fmul NInf (Fin b) = (if b = 0 then NaN else if 0 < b then NInf else PInf)"
| "fmul PInf PInf = PInf"
| "fmul PInf NInf = NInf"
| "fmul NInf PInf = NInf"
| "fmul NInf NInf = PInf"

fun fadd :: "pyfloat \<Rightarrow> pyfloat \<Rightarrow> pyfloat" where
  "fadd NaN _ = NaN"
| "fadd _ NaN = NaN"
| "fadd (Fin a) (Fin b) = to_double (a + b)"
| "fadd (Fin a) PInf = PInf"
| "fadd (Fin a) NInf = NInf"
| "fadd PInf (Fin b) = PInf"
| "fadd NInf (Fin b) = NInf"
| "fadd PInf PInf = PInf"
| "fadd PInf NInf = NaN"
| "fadd NInf PInf = NaN"
| "fadd NInf NInf = NInf"

fun round2 :: "pyfloat \<Rightarrow> pyfloat" where
  \<comment> \<open>\<^verbatim>\<open>round(x, 2)\<close>: the exact value rounded to two decimals, ties to even, then
      to the nearest float; infinities and NaN are returned as they are\<close>
  "round2 (Fin x) = (let (n, d) = quotient_of x in to_double (Fract (rhe_div (n * 100) d) 100))"
| "round2 f = f"

subsection \<open>Character classes\<close>

definition is_digit :: "char \<Rightarrow> bool" where
  "is_digit c = (c \<in> set ''0123456789'')"

definition is_numch :: "char \<Rightarrow> bool" where
  \<comment> \<open>the class \<^verbatim>\<open>[\d\.]\<close>\<close>
  "is_numch c = (is_digit c \<or> c = CHR ''.'')"

definition is_space :: "char \<Rightarrow> bool" where
  \<comment> \<open>the class \<^verbatim>\<open>\s\<close> of a str pattern, below code point 256\<close>
  "is_space c = ((of_char c :: nat) \<in> {9, 10, 11, 12, 13, 28, 29, 30, 31, 32, 133, 160})"

definition is_ascii_space :: "char \<Rightarrow> bool" where
  \<comment> \<open>the white space that \<^verbatim>\<open>float\<close> strips from an ASCII string\<close>
  "is_ascii_space c = ((of_char c :: nat) \<in> {9, 10, 11, 12, 13, 32})"

definition lower :: "char \<Rightarrow> char" where
  "lower c =
     (case map_of (zip ''ABCDEFGHIJKLMNOPQRSTUVWXYZ'' ''abcdefghijklmnopqrstuvwxyz'') c of
        Some l \<Rightarrow> l
      | None \<Rightarrow> c)"

subsection \<open>JSON values, exceptions and the user interface\<close>

datatype json =
    JNull
  | JBool bool
  | JInt int
  | JFloat pyfloat
  | JStr string
  | JList "json list"
  | JObj "(string \<times> json) list"

text \<open>
  A decoded object (a Python dict in insertion order) is an association list; reading is
  \<open>map_of\<close>, the assignment \<^verbatim>\<open>d[k] = v\<close> is \<open>AList.update\<close> (in place when the key
  is there, appended otherwise) and \<^verbatim>\<open>del d[k]\<close> is \<open>AList.delete\<close>.
\<close>

type_synonym pydict = "(string \<times> json) list"

datatype exn =
    JSONDecodeError string
  | ValueError
  | TypeError
  | AttributeError
  | OverflowError
  | RecursionError

datatype ui_event =
    ErrNoJson               \<comment> \<open>\<^verbatim>\<open>st.error("Model output did not contain a valid JSON object ...")\<close>\<close>
  | WriteRaw string         \<comment> \<open>\<^verbatim>\<open>st.write("Raw Model Output:", text_output)\<close>\<close>
  | WarnMalformedTotal      \<comment> \<open>\<^verbatim>\<open>st.warning("... 'total' field was malformed ...")\<close>\<close>
  | InfoCorrected pyfloat   \<comment> \<open>\<^verbatim>\<open>st.info(f"Corrected total to: {total} ...")\<close>\<close>
  | InfoCalculated pyfloat  \<comment> \<open>\<^verbatim>\<open>st.info(f"Total not found in text. Calculated total ...")\<close>\<close>
  | WarnListRemoved         \<comment> \<open>\<^verbatim>\<open>st.warning("Malformed list found under the 'total' key ...")\<close>\<close>
  | ErrDecode string        \<comment> \<open>\<^verbatim>\<open>st.error(f"JSON Decoding Error: ... {e}")\<close>\<close>
  | WriteExtracted string   \<comment> \<open>\<^verbatim>\<open>st.write("Extracted JSON String (Failed to Decode):", json_string)\<close>\<close>

fun is_number :: "json \<Rightarrow> bool" where
  \<comment> \<open>\<^verbatim>\<open>isinstance(v, (int, float))\<close>; \<^verbatim>\<open>bool\<close> is a subclass of \<^verbatim>\<open>int\<close>\<close>
  "is_number (JBool _) = True"
| "is_number (JInt _) = True"
| "is_number (JFloat _) = True"
| "is_number _ = False"

fun is_list :: "json \<Rightarrow> bool" where
  "is_list (JList _) = True"
| "is_list _ = False"

fun is_str :: "json \<Rightarrow> bool" where
  "is_str (JStr _) = True"
| "is_str _ = False"

subsection \<open>The conversion \<^verbatim>\<open>float(v)\<close>\<close>

fun digits_val :: "nat \<Rightarrow> string \<Rightarrow> nat" where
  "digits_val acc [] = acc"
| "digits_val acc (c # cs) = digits_val (10 * acc + (of_char c - 48)) cs"

fun valid_underscores :: "char \<Rightarrow> string \<Rightarrow> bool" where
  \<comment> \<open>an underscore stands between two digits; the first argument is the previous character\<close>
  "valid_underscores prev [] = (prev \<noteq> CHR ''_'')"
| "valid_underscores prev (c # cs) =
     ((if c = CHR ''_'' then is_digit prev else if prev = CHR ''_'' then is_digit c else True)
      \<and> valid_underscores c cs)"

definition split_sign :: "string \<Rightarrow> bool \<times> string" where
  "split_sign s =
     (case s of
        [] \<Rightarrow> (False, [])
      | c # r \<Rightarrow> if c = CHR ''-'' then (True, r) else if c = CHR ''+'' then (False, r) else (False, s))"

definition parse_exponent :: "string \<Rightarrow> int option" where
  \<comment> \<open>what follows the significand: nothing, or \<^verbatim>\<open>e\<close>, a sign and digits\<close>
  "parse_exponent s =
     (case s of
        [] \<Rightarrow> Some 0
      | c # r \<Rightarrow>
          if c = CHR ''e'' \<or> c = CHR ''E'' then
            (let (neg, ds) = split_sign r
             in if ds \<noteq> [] \<and> list_all is_digit ds
                then Some (if neg then - int (digits_val 0 ds) else int (digits_val 0 ds))
                else None)
          else None)"

definition parse_decimal :: "string \<Rightarrow> rat option" where
  \<comment> \<open>an unsigned decimal literal, all of the string\<close>
  "parse_decimal s =
     (let ip = takeWhile is_digit s; s2 = dropWhile is_digit s;
          (fp, s3) = (case s2 of
                        [] \<Rightarrow> ([], [])
                      | c # r \<Rightarrow> if c = CHR ''.'' then (takeWhile is_digit r, dropWhile is_digit r)
                                 else ([], s2))
      in if ip = [] \<and> fp = [] then None
         else (case parse_exponent s3 of
                 None \<Rightarrow> None
               | Some e \<Rightarrow>
                   Some (Fract (int (digits_val 0 (ip @ fp))) (10 ^ length fp)
                         * (if 0 \<le> e then 10 ^ nat e else 1 / 10 ^ nat (- e)))))"

definition float_of_str :: "string \<Rightarrow> pyfloat option" where
  \<comment> \<open>\<^verbatim>\<open>float(s)\<close> for a string; \<open>None\<close> is ValueError\<close>
  "float_of_str s0 =
     (let s = map (\<lambda>c. if (of_char c :: nat) \<in> {133, 160} then CHR '' '' else c) s0
      in if \<not> valid_underscores (CHR '' '') s then None
         else
           let t = rev (dropWhile is_ascii_space (rev (dropWhile is_ascii_space
                          (filter (\<lambda>c. c \<noteq> CHR ''_'') s))));
               (neg, u) = split_sign t;
               w = map lower u
           in if w = ''inf'' \<or> w = ''infinity'' then Some (if neg then NInf else PInf)
              else if w = ''nan'' then Some NaN
              else (case parse_decimal u of
                      None \<Rightarrow> None
                    | Some q \<Rightarrow> Some (to_double (if neg then - q else q))))"

fun py_float :: "json \<Rightarrow> exn + pyfloat" where
  "py_float (JFloat f) = Inr f"
| "py_float (JBool b) = Inr (Fin (if b then 1 else 0))"
| "py_float (JInt n) =
     (case to_double (of_int n) of
        Fin r \<Rightarrow> Inr (Fin r)
      | _ \<Rightarrow> Inl OverflowError)"
| "py_float (JStr s) = (case float_of_str s of None \<Rightarrow> Inl ValueError | Some f \<Rightarrow> Inr f)"
| "py_float _ = Inl TypeError"

subsection \<open>Envelope extraction (lines 78 to 85)\<close>

text \<open>
  \<^verbatim>\<open>re.search(r'\{.*\}', text_output, re.DOTALL)\<close>: the span from the first opening
  brace to the last closing brace after it.
\<close>

definition extract_json :: "string \<Rightarrow> string option" where
  "extract_json s =
     (let t = dropWhile (\<lambda>c. c \<noteq> CHR ''{'') s;
          r = rev (dropWhile (\<lambda>c. c \<noteq> CHR ''}'') (rev t))
      in if r = [] then None else Some r)"

subsection \<open>Recovery Path A: the anchored total of the receipt text (line 97)\<close>

text \<open>
  The pattern \<^verbatim>\<open>TOTAL:\s*([\d\.]+)\<close> with IGNORECASE, matched at the start of a
  string: the anchor, all the white space after it, and the longest run of digits and
  points, which must not be empty and is group 1. The two classes are disjoint, so
  backtracking finds no other match at the same start.
\<close>

definition match_total_at :: "string \<Rightarrow> string option" where
  "match_total_at s =
     (if map lower (take 6 s) = ''total:'' then
        (let g = takeWhile is_numch (dropWhile is_space (drop 6 s))
         in if g = [] then None else Some g)
      else None)"

fun total_search :: "string \<Rightarrow> string option" where
  \<comment> \<open>\<^verbatim>\<open>re.search\<close>: the match at the leftmost position that has one\<close>
  "total_search [] = None"
| "total_search (c # cs) =
     (case match_total_at (c # cs) of
        Some g \<Rightarrow> Some g
      | None \<Rightarrow> total_search cs)"

subsection \<open>Recovery Path B: the total of the items (lines 108 to 117)\<close>

fun py_iter :: "json \<Rightarrow> exn + json list" where
  \<comment> \<open>what a \<^verbatim>\<open>for\<close> loop iterates over\<close>
  "py_iter (JList xs) = Inr xs"
| "py_iter (JStr s) = Inr (map (\<lambda>c. JStr [c]) s)"
| "py_iter (JObj kvs) = Inr (map (\<lambda>kv. JStr (fst kv)) kvs)"
| "py_iter _ = Inl TypeError"

fun item_get :: "json \<Rightarrow> string \<Rightarrow> json \<Rightarrow> exn + json" where
  \<comment> \<open>\<^verbatim>\<open>item.get(key, default)\<close>: only a dict has the method\<close>
  "item_get (JObj kvs) k d = Inr (case map_of kvs k of None \<Rightarrow> d | Some v \<Rightarrow> v)"
| "item_get _ k d = Inl AttributeError"

definition item_amount :: "json \<Rightarrow> exn + pyfloat" where
  \<comment> \<open>the body of the inner \<^verbatim>\<open>try\<close>: quantity times price\<close>
  "item_amount item =
     (case item_get item ''quantity'' (JFloat (Fin 0)) of
        Inl e \<Rightarrow> Inl e
      | Inr qv \<Rightarrow>
          (case py_float qv of
             Inl e \<Rightarrow> Inl e
           | Inr quantity \<Rightarrow>
               (case item_get item ''price'' (JFloat (Fin 0)) of
                  Inl e \<Rightarrow> Inl e
                | Inr pv \<Rightarrow>
                    (case py_float pv of
                       Inl e \<Rightarrow> Inl e
                     | Inr price \<Rightarrow> Inr (fmul quantity price)))))"

fun is_value_or_type_error :: "exn \<Rightarrow> bool" where
  \<comment> \<open>\<^verbatim>\<open>except (ValueError, TypeError)\<close>; JSONDecodeError is a subclass of ValueError\<close>
  "is_value_or_type_error ValueError = True"
| "is_value_or_type_error TypeError = True"
| "is_value_or_type_error (JSONDecodeError _) = True"
| "is_value_or_type_error _ = False"

fun sum_items :: "pyfloat \<Rightarrow> json list \<Rightarrow> exn + pyfloat" where
  "sum_items calculated_total [] = Inr calculated_total"
| "sum_items calculated_total (item # rest) =
     (case item_amount item of
        Inr x \<Rightarrow> sum_items (fadd calculated_total x) rest
      | Inl e \<Rightarrow> if is_value_or_type_error e then sum_items calculated_total rest else Inl e)"

definition items_total :: "pydict \<Rightarrow> exn + pyfloat" where
  "items_total json_output =
     (case py_iter (case map_of json_output ''items'' of None \<Rightarrow> JList [] | Some v \<Rightarrow> v) of
        Inl e \<Rightarrow> Inl e
      | Inr xs \<Rightarrow> (case sum_items (Fin 0) xs of Inl e \<Rightarrow> Inl e | Inr c \<Rightarrow> Inr (round2 c)))"

subsection \<open>The repair of the total (lines 90 to 126) and the pipeline\<close>

definition total_is_number :: "pydict \<Rightarrow> bool" where
  \<comment> \<open>\<^verbatim>\<open>isinstance(json_output.get('total'), (int, float))\<close>\<close>
  "total_is_number json_output =
     (case map_of json_output ''total'' of None \<Rightarrow> False | Some v \<Rightarrow> is_number v)"

definition fix_total :: "string \<Rightarrow> pydict \<Rightarrow> ui_event list \<times> (exn + pydict)" where
  "fix_total receipt_text json_output =
     (if \<not> total_is_number json_output then
        (case total_search receipt_text of
           Some g \<Rightarrow>
             (case py_float (JStr g) of
                Inr f \<Rightarrow>
                  ([WarnMalformedTotal, InfoCorrected f],
                   Inr (AList.update ''total'' (JFloat f) json_output))
              | Inl e \<Rightarrow>
                  if e = ValueError
                  then ([WarnMalformedTotal],
                        Inr (AList.update ''total'' (JFloat (Fin 0)) json_output))
                  else ([WarnMalformedTotal], Inl e))
         | None \<Rightarrow>
             (case items_total json_output of
                Inl e \<Rightarrow> ([WarnMalformedTotal], Inl e)
              | Inr t \<Rightarrow>
                  ([WarnMalformedTotal, InfoCalculated t],
                   Inr (AList.update ''total'' (JFloat t) json_output))))
      else ([], Inr json_output))"

definition cleanup :: "pydict \<Rightarrow> ui_event list \<times> pydict" where
  \<comment> \<open>lines 122 to 124\<close>
  "cleanup json_output =
     (case map_of json_output ''total'' of
        Some (JList xs) \<Rightarrow> ([WarnListRemoved], AList.delete ''total'' json_output)
      | _ \<Rightarrow> ([], json_output))"

definition repair :: "string \<Rightarrow> pydict \<Rightarrow> ui_event list \<times> (exn + pydict)" where
  "repair receipt_text json_output =
     (case fix_total receipt_text json_output of
        (ev, Inl e) \<Rightarrow> (ev, Inl e)
      | (ev, Inr fixed) \<Rightarrow> (let (ev', r) = cleanup fixed in (ev @ ev', Inr r)))"

text \<open>
  \<open>loads\<close> stands for \<^verbatim>\<open>json.loads\<close> of the standard library, which the repository
  calls and does not define: it returns the decoded value or raises. The result of
  \<open>process_receipt\<close> is the list of user interface calls made, and either the exception
  that leaves the function or its return value (\<open>None\<close> for Python's \<^verbatim>\<open>None\<close>).
\<close>

definition process_receipt ::
  "(string \<Rightarrow> exn + json) \<Rightarrow> string \<Rightarrow> string \<Rightarrow> ui_event list \<times> (exn + pydict option)" where
  "process_receipt loads text_output receipt_text =
     (case extract_json text_output of
        None \<Rightarrow> ([ErrNoJson, WriteRaw text_output], Inr None)
      | Some json_string \<Rightarrow>
          (case loads json_string of
             Inl (JSONDecodeError d) \<Rightarrow>
               ([ErrDecode d, WriteExtracted json_string, WriteRaw text_output], Inr None)
           | Inl e \<Rightarrow> ([], Inl e)
           | Inr (JObj json_output) \<Rightarrow>
               (case repair receipt_text json_output of
                  (ev, Inl e) \<Rightarrow> (ev, Inl e)
                | (ev, Inr r) \<Rightarrow> (ev, Inr (Some r)))
           | Inr _ \<Rightarrow> ([], Inl AttributeError)))"

section \<open>Properties\<close>

subsection \<open>The repair, case by case\<close>

lemma cleanup_number: "total_is_number d \<Longrightarrow> cleanup d = ([], d)"
  by (auto simp: cleanup_def total_is_number_def split: option.splits json.splits)

lemma total_is_number_update:
  "is_number v \<Longrightarrow> total_is_number (AList.update ''total'' v d)"
  by (simp add: total_is_number_def update_conv')

lemma repair_number: "total_is_number d \<Longrightarrow> repair t d = ([], Inr d)"
  by (simp add: repair_def fix_total_def cleanup_number)

lemma repair_not_number:
  "\<not> total_is_number d \<Longrightarrow>
   repair t d =
     (case total_search t of
        Some g \<Rightarrow>
          (case float_of_str g of
             Some f \<Rightarrow> ([WarnMalformedTotal, InfoCorrected f],
                        Inr (AList.update ''total'' (JFloat f) d))
           | None \<Rightarrow> ([WarnMalformedTotal],
                      Inr (AList.update ''total'' (JFloat (Fin 0)) d)))
      | None \<Rightarrow>
          (case items_total d of
             Inl e \<Rightarrow> ([WarnMalformedTotal], Inl e)
           | Inr x \<Rightarrow> ([WarnMalformedTotal, InfoCalculated x],
                      Inr (AList.update ''total'' (JFloat x) d))))"
  by (simp add: repair_def fix_total_def cleanup_number total_is_number_update
           split: option.splits sum.splits)

lemma repair_returns_number: "repair t d = (ev, Inr r) \<Longrightarrow> total_is_number r"
proof (cases "total_is_number d")
  case True
  assume "repair t d = (ev, Inr r)"
  with True show ?thesis by (simp add: repair_number)
next
  case False
  assume "repair t d = (ev, Inr r)"
  with False show ?thesis
    by (auto simp: repair_not_number total_is_number_update split: option.splits sum.splits)
qed

text \<open>
  What \<^verbatim>\<open>process_receipt\<close> returns has a total, which is an integer, a float or a
  boolean: the three kinds of value that pass \<^verbatim>\<open>isinstance(total, (int, float))\<close>.
\<close>

lemma returned_total_shape:
  assumes "process_receipt loads text_output receipt_text = (ev, Inr (Some r))"
  shows "\<exists>v. map_of r ''total'' = Some v
           \<and> ((\<exists>i. v = JInt i) \<or> (\<exists>f. v = JFloat f) \<or> (\<exists>b. v = JBool b))"
proof -
  from assms obtain json_output where "repair receipt_text json_output = (ev, Inr r)"
    by (auto simp: process_receipt_def split: option.splits sum.splits exn.splits json.splits prod.splits)
  then have "total_is_number r" by (rule repair_returns_number)
  then obtain v where v: "map_of r ''total'' = Some v" "is_number v"
    by (auto simp: total_is_number_def split: option.splits)
  then show ?thesis by (cases v) auto
qed

subsection \<open>The two regular expressions\<close>

lemma total_search_skip:
  "\<forall>i<length pre. match_total_at (drop i (pre @ s)) = None \<Longrightarrow>
   total_search (pre @ s) = total_search s"
proof (induction pre)
  case Nil
  then show ?case by simp
next
  case (Cons c pre)
  have "0 < length (c # pre)" by simp
  from Cons.prems [rule_format, OF this]
  have a: "match_total_at (c # pre @ s) = None" by simp
  have b: "\<forall>i<length pre. match_total_at (drop i (pre @ s)) = None"
  proof (intro allI impI)
    fix i assume "i < length pre"
    then have "Suc i < length (c # pre)" by simp
    from Cons.prems [rule_format, OF this]
    show "match_total_at (drop i (pre @ s)) = None" by simp
  qed
  show ?case using a Cons.IH [OF b] by simp
qed

lemma total_search_here: "match_total_at s = Some g \<Longrightarrow> total_search s = Some g"
  by (cases s) (simp_all add: match_total_at_def)

lemma match_total_at_anchor:
  assumes "map lower anchor = ''total:''" and "\<forall>c\<in>set ws. is_space c"
    and "g \<noteq> []" and "\<forall>c\<in>set g. is_numch c \<and> \<not> is_space c" and "takeWhile is_numch post = []"
  shows "match_total_at (anchor @ ws @ g @ post) = Some g"
proof -
  have "length (map lower anchor) = length ''total:''" using assms(1) by simp
  then have len: "length anchor = 6" by simp
  have d: "dropWhile is_space (ws @ g @ post) = g @ post"
    using assms(2,3,4) by (cases g) (simp_all add: dropWhile_append3)
  have t: "takeWhile is_numch (g @ post) = g"
    using assms(4,5) by (simp add: takeWhile_append2)
  show ?thesis using len assms(1,3) d t by (simp add: match_total_at_def)
qed

lemma total_search_class:
  "total_search s = Some g \<Longrightarrow> g \<noteq> [] \<and> (\<forall>c\<in>set g. is_numch c)"
proof (induction s)
  case Nil then show ?case by simp
next
  case (Cons c s)
  show ?case
  proof (cases "match_total_at (c # s)")
    case None
    with Cons show ?thesis by simp
  next
    case (Some h)
    with Cons.prems have "h = g" by simp
    with Some show ?thesis
      by (auto simp: match_total_at_def Let_def split: if_splits dest: set_takeWhileD)
  qed
qed

lemma extract_none: "extract_json s = None \<longleftrightarrow> CHR ''}'' \<notin> set (dropWhile (\<lambda>c. c \<noteq> CHR ''{'') s)"
  by (auto simp: extract_json_def Let_def dropWhile_eq_Nil_conv)

lemma extract_span:
  assumes "CHR ''{'' \<notin> set pre" and "CHR ''}'' \<notin> set post"
  shows "extract_json (pre @ CHR ''{'' # mid @ CHR ''}'' # post) = Some (CHR ''{'' # mid @ ''}'')"
proof -
  have a: "dropWhile (\<lambda>c. c \<noteq> CHR ''{'') (pre @ CHR ''{'' # mid @ CHR ''}'' # post) = CHR ''{'' # mid @ CHR ''}'' # post"
    using assms(1) by (auto simp: dropWhile_append3)
  have b: "dropWhile (\<lambda>c. c \<noteq> CHR ''}'') (rev post @ CHR ''}'' # rev mid @ ''{'') = CHR ''}'' # rev mid @ ''{''"
    using assms(2) by (auto simp: dropWhile_append3)
  show ?thesis by (simp add: extract_json_def a b)
qed

lemma float_21_82: "float_of_str ''21.82'' = Some (Fin (3070891995913257 / 140737488355328))"
  by code_simp

lemma numch_21_82: "\<forall>c\<in>set ''21.82''. is_numch c \<and> \<not> is_space c"
  by (simp add: is_numch_def is_digit_def is_space_def)

text \<open>
  Path A on the receipt of the specification: when the leftmost match of the pattern is the
  anchor followed by \<^verbatim>\<open>21.82\<close>, and no digit or point follows the literal, the total
  becomes the float nearest to 21.82, which is what the literal \<^verbatim>\<open>21.82\<close> denotes.
\<close>

lemma path_A_first_match_21_82:
  assumes "\<not> total_is_number json_output"
    and "receipt_text = pre @ anchor @ ws @ ''21.82'' @ post"
    and "map lower anchor = ''total:''"
    and "\<forall>c\<in>set ws. is_space c"
    and "takeWhile is_numch post = []"
    and "\<forall>i<length pre. match_total_at (drop i receipt_text) = None"
  shows "repair receipt_text json_output
    = ([WarnMalformedTotal, InfoCorrected (Fin (3070891995913257 / 140737488355328))],
       Inr (AList.update ''total'' (JFloat (Fin (3070891995913257 / 140737488355328))) json_output))"
proof -
  have m: "match_total_at (anchor @ ws @ ''21.82'' @ post) = Some ''21.82''"
    using assms(3,4,5) numch_21_82 by (intro match_total_at_anchor) simp_all
  have "total_search receipt_text = total_search (anchor @ ws @ ''21.82'' @ post)"
    unfolding assms(2) using assms(6) [unfolded assms(2)] by (rule total_search_skip)
  also have "\<dots> = Some ''21.82''" using m by (rule total_search_here)
  finally show ?thesis using assms(1) by (simp add: repair_not_number float_21_82)
qed

lemma path_A_first_match_21_82_example:
  "\<not> total_is_number [(''total'', JStr ''unknown'')]
   \<and> ''Milk 4.50 Total: 21.82 thanks'' = ''Milk 4.50 '' @ ''Total:'' @ '' '' @ ''21.82'' @ '' thanks''
   \<and> map lower ''Total:'' = ''total:''
   \<and> takeWhile is_numch '' thanks'' = []
   \<and> total_search ''Milk 4.50 '' = None
   \<and> repair ''Milk 4.50 Total: 21.82 thanks'' [(''total'', JStr ''unknown'')]
       = ([WarnMalformedTotal, InfoCorrected (Fin (3070891995913257 / 140737488355328))],
          Inr [(''total'', JFloat (Fin (3070891995913257 / 140737488355328)))])"
proof -
  have h1: "\<not> total_is_number [(''total'', JStr ''unknown'')]" by (simp add: total_is_number_def)
  have h2: "''Milk 4.50 Total: 21.82 thanks'' = ''Milk 4.50 '' @ ''Total:'' @ '' '' @ ''21.82'' @ '' thanks''"
    by simp
  have h3: "map lower ''Total:'' = ''total:''" by (simp add: lower_def)
  have h4: "\<forall>c\<in>set '' ''. is_space c" by (simp add: is_space_def)
  have h5: "takeWhile is_numch '' thanks'' = []" by (simp add: is_numch_def is_digit_def)
  have h6: "\<forall>i<length ''Milk 4.50 ''. match_total_at (drop i ''Milk 4.50 Total: 21.82 thanks'') = None"
    by (simp add: All_less_Suc match_total_at_def lower_def)
  have h7: "total_search ''Milk 4.50 '' = None" by code_simp
  show ?thesis
    using path_A_first_match_21_82 [OF h1 h2 h3 h4 h5 h6] h1 h3 h5 h7 by simp
qed

text \<open>
  Path B on the receipt of the specification: Milk 1 at 4.50 and Bread 2 at 3.00 give 10.50.
\<close>

lemma path_B_example:
  "repair ''GROCERY STORE''
     [(''items'', JList [JObj [(''name'', JStr ''Milk''), (''quantity'', JInt 1),
                               (''price'', JFloat (Fin (9 / 2)))],
                         JObj [(''name'', JStr ''Bread''), (''quantity'', JInt 2),
                               (''price'', JFloat (Fin 3))]])]
   = ([WarnMalformedTotal, InfoCalculated (Fin (21 / 2))],
      Inr [(''items'', JList [JObj [(''name'', JStr ''Milk''), (''quantity'', JInt 1),
                                    (''price'', JFloat (Fin (9 / 2)))],
                              JObj [(''name'', JStr ''Bread''), (''quantity'', JInt 2),
                                    (''price'', JFloat (Fin 3))]]),
           (''total'', JFloat (Fin (21 / 2)))])"
  by code_simp

text \<open>
  An item whose coercion raises ValueError or TypeError is skipped: the string
  \<^verbatim>\<open>"two"\<close> and \<^verbatim>\<open>null\<close> are not numbers, the third item counts 2 times 1.
\<close>

lemma path_B_skips_value_and_type_errors:
  "snd (repair ''GROCERY STORE''
     [(''items'', JList [JObj [(''quantity'', JStr ''two'')], JObj [(''quantity'', JNull)],
                         JObj [(''quantity'', JStr ''2''), (''price'', JBool True)]])])
   = Inr [(''items'', JList [JObj [(''quantity'', JStr ''two'')], JObj [(''quantity'', JNull)],
                             JObj [(''quantity'', JStr ''2''), (''price'', JBool True)]]),
          (''total'', JFloat (Fin 2))]"
  by code_simp

subsection \<open>The claims\<close>

text \<open>
  C1. Every exception from the JSON decoding or from the coercion of item fields is caught
  inside \<^verbatim>\<open>process_receipt\<close>, also when \<^verbatim>\<open>items\<close> is not a list of objects.
  The code does not do that: the \<^verbatim>\<open>for\<close> statement over \<^verbatim>\<open>items\<close> stands outside the
  inner \<^verbatim>\<open>try\<close>, and the handlers name only ValueError, TypeError and JSONDecodeError.
  With \<^verbatim>\<open>{"items": 5}\<close> and a receipt without the anchor, the TypeError of iterating
  a number leaves the function.
\<close>

theorem process_receipt_items_number_raises:
  \<open>process_receipt
     (\<lambda>s. if s = ''{"items": 5}'' then Inr (JObj [(''items'', JInt 5)])
          else Inl (JSONDecodeError ''Expecting value''))
     ''Sure: {"items": 5}'' ''Milk 4.50''
   = ([WarnMalformedTotal], Inl TypeError)\<close>
  by code_simp

text \<open>
  C2. When the total of the decoded object is not a number and the receipt text holds the
  anchor followed by 21.82, the repair assigns 21.82. The code does not do that on every
  such receipt: the pattern is searched anywhere in the text, so the end of the word
  \<^verbatim>\<open>Subtotal:\<close> is an anchor too, and the search returns the leftmost match. On a
  receipt with a subtotal line before the total, the total of the object becomes the
  subtotal 10.0, announced as the corrected total, although \<^verbatim>\<open>TOTAL: 21.82\<close> stands in
  the text. (\<open>path_A_first_match_21_82\<close> gives the receipts on which 21.82 is assigned.)
\<close>

theorem repair_subtotal_shadows_total:
  "\<not> total_is_number [(''total'', JStr ''unknown'')]
   \<and> ''Subtotal: 10.00 TOTAL: 21.82'' = ''Subtotal: 10.00 '' @ ''TOTAL:'' @ '' '' @ ''21.82'' @ []
   \<and> float_of_str ''21.82'' = Some (Fin (3070891995913257 / 140737488355328))
   \<and> repair ''Subtotal: 10.00 TOTAL: 21.82'' [(''total'', JStr ''unknown'')]
       = ([WarnMalformedTotal, InfoCorrected (Fin 10)], Inr [(''total'', JFloat (Fin 10))])
   \<and> Fin 10 \<noteq> Fin (3070891995913257 / 140737488355328)"
  by code_simp

text \<open>
  C3. Without a numeric total and without the anchor, the repair assigns the rounded sum
  of quantity times price, skipping the items that cannot be coerced. The code does so
  for the items whose coercion raises ValueError or TypeError (see \<open>path_B_example\<close> and
  \<open>path_B_skips_value_and_type_errors\<close>); an item that is not an object raises
  AttributeError, which the handler does not name, and the whole operation fails.
\<close>

theorem repair_non_object_item_raises:
  "repair ''Milk 4.50 Bread 3.00''
     [(''items'', JList [JObj [(''quantity'', JInt 1), (''price'', JFloat (Fin (9 / 2)))],
                         JStr ''Bread''])]
   = ([WarnMalformedTotal], Inl AttributeError)"
  by code_simp

text \<open>
  C4. Whenever \<^verbatim>\<open>process_receipt\<close> returns an object, its \<^verbatim>\<open>total\<close> is a numeric
  value. The code does not ensure that: its test \<^verbatim>\<open>isinstance(total, (int, float))\<close>
  also holds of \<^verbatim>\<open>True\<close> and \<^verbatim>\<open>False\<close>, so a total that the model gave as
  \<^verbatim>\<open>true\<close> is taken for a number and returned as it is, without the warning and
  without a look at the receipt text, which holds \<^verbatim>\<open>TOTAL: 21.82\<close> here. (By
  \<open>returned_total_shape\<close> a returned total is always present, and an integer, a float or
  a boolean.)
\<close>

theorem process_receipt_returns_boolean_total:
  \<open>process_receipt
     (\<lambda>s. if s = ''{"total": true}'' then Inr (JObj [(''total'', JBool True)])
          else Inl (JSONDecodeError ''Expecting value''))
     ''Here you go: {"total": true}'' ''TOTAL: 21.82''
   = ([], Inr (Some [(''total'', JBool True)]))\<close>
  by code_simp

text \<open>
  C5. A total that is a list is never accepted: the repair enters the recovery (the warning
  is its first call), takes Path A when the receipt text has a match (with 0.0 for a literal
  that is no float) and Path B otherwise, and an object it returns has a float total.
\<close>

theorem list_total_routes_into_recovery:
  assumes "map_of json_output ''total'' = Some (JList xs)"
  shows "(\<exists>ev. fst (repair receipt_text json_output) = WarnMalformedTotal # ev)
    \<and> (\<forall>r. snd (repair receipt_text json_output) = Inr r \<longrightarrow>
          (\<exists>f. map_of r ''total'' = Some (JFloat f)))
    \<and> (\<forall>g. total_search receipt_text = Some g \<longrightarrow>
          snd (repair receipt_text json_output)
            = Inr (AList.update ''total''
                     (JFloat (case float_of_str g of Some x \<Rightarrow> x | None \<Rightarrow> Fin 0)) json_output))
    \<and> (total_search receipt_text = None \<longrightarrow>
          snd (repair receipt_text json_output)
            = (case items_total json_output of
                 Inl e \<Rightarrow> Inl e
               | Inr x \<Rightarrow> Inr (AList.update ''total'' (JFloat x) json_output)))"
proof -
  from assms have n: "\<not> total_is_number json_output" by (simp add: total_is_number_def)
  show ?thesis
    by (auto simp: repair_not_number [OF n] update_conv' split: option.splits sum.splits)
qed

theorem list_total_routes_into_recovery_witness:
  "map_of [(''total'', JList [JFloat (Fin 5), JFloat (Fin 5)])] ''total''
     = Some (JList [JFloat (Fin 5), JFloat (Fin 5)])
   \<and> total_search ''TOTAL: 21.82'' = Some ''21.82''
   \<and> snd (repair ''TOTAL: 21.82'' [(''total'', JList [JFloat (Fin 5), JFloat (Fin 5)])])
       = Inr [(''total'', JFloat (Fin (3070891995913257 / 140737488355328)))]"
proof -
  have h: "map_of [(''total'', JList [JFloat (Fin 5), JFloat (Fin 5)])] ''total''
     = Some (JList [JFloat (Fin 5), JFloat (Fin 5)])" by simp
  have g: "total_search ''TOTAL: 21.82'' = Some ''21.82''" by code_simp
  from list_total_routes_into_recovery [OF h, of "''TOTAL: 21.82''"] g
  show ?thesis by (simp add: float_21_82)
qed

text \<open>
  C6. \<open>extract_json\<close> returns the span from the first opening brace to the last closing
  brace, and nothing exactly when no closing brace follows the first opening brace, which
  covers the texts that lack either brace; the failure is reported with the raw text and
  \<^verbatim>\<open>None\<close> is returned. A text with both braces in the wrong order has no span.
\<close>

theorem extract_json_span:
  "(extract_json s = None \<longleftrightarrow> CHR ''}'' \<notin> set (dropWhile (\<lambda>c. c \<noteq> CHR ''{'') s))
   \<and> (CHR ''{'' \<notin> set s \<or> CHR ''}'' \<notin> set s \<longrightarrow> extract_json s = None)
   \<and> (CHR ''{'' \<notin> set pre \<and> CHR ''}'' \<notin> set post \<longrightarrow>
        extract_json (pre @ CHR ''{'' # mid @ CHR ''}'' # post) = Some (CHR ''{'' # mid @ ''}''))
   \<and> (extract_json s = None \<longrightarrow>
        process_receipt loads s receipt_text = ([ErrNoJson, WriteRaw s], Inr None))"
proof (intro conjI impI)
  show "extract_json s = None \<longleftrightarrow> CHR ''}'' \<notin> set (dropWhile (\<lambda>c. c \<noteq> CHR ''{'') s)"
    by (rule extract_none)
next
  assume "CHR ''{'' \<notin> set s \<or> CHR ''}'' \<notin> set s"
  then show "extract_json s = None"
  proof
    assume "CHR ''{'' \<notin> set s"
    then have e: "dropWhile (\<lambda>c. c \<noteq> CHR ''{'') s = []"
      by (auto simp: dropWhile_eq_Nil_conv)
    show ?thesis by (simp add: extract_none e)
  next
    assume "CHR ''}'' \<notin> set s"
    then have "CHR ''}'' \<notin> set (dropWhile (\<lambda>c. c \<noteq> CHR ''{'') s)"
      by (meson set_dropWhileD)
    then show ?thesis by (simp add: extract_none)
  qed
next
  assume "CHR ''{'' \<notin> set pre \<and> CHR ''}'' \<notin> set post"
  then show "extract_json (pre @ CHR ''{'' # mid @ CHR ''}'' # post) = Some (CHR ''{'' # mid @ ''}'')"
    by (simp add: extract_span)
next
  assume "extract_json s = None"
  then show "process_receipt loads s receipt_text = ([ErrNoJson, WriteRaw s], Inr None)"
    by (simp add: process_receipt_def)
qed

theorem extract_json_span_witness:
  \<open>(extract_json ''no braces'' = None
      \<longleftrightarrow> CHR ''}'' \<notin> set (dropWhile (\<lambda>c. c \<noteq> CHR ''{'') ''no braces''))
   \<and> extract_json ''no braces'' = None
   \<and> extract_json (''Sure! '' @ CHR ''{'' # ''"total": 5} and {more'' @ CHR ''}'' # '' done'')
       = Some (CHR ''{'' # ''"total": 5} and {more'' @ ''}'')
   \<and> process_receipt (\<lambda>s. Inl (JSONDecodeError ''unused'')) ''no braces'' ''TOTAL: 21.82''
       = ([ErrNoJson, WriteRaw ''no braces''], Inr None)\<close>
  using extract_json_span [of "''no braces''" "''Sure! ''" "'' done''" "''\"total\": 5} and {more''"
      "\<lambda>s. Inl (JSONDecodeError ''unused'')" "''TOTAL: 21.82''"]
  by simp

theorem extract_json_counterexample:
  "CHR ''{'' \<in> set ''}{'' \<and> CHR ''}'' \<in> set ''}{'' \<and> extract_json ''}{'' = None"
  by (simp add: extract_json_def)

text \<open>
  C7. When the decoder rejects the extracted block, \<^verbatim>\<open>process_receipt\<close> reports the
  error with the extracted block and the raw output, and returns \<^verbatim>\<open>None\<close>.
\<close>

theorem invalid_json_reported:
  "extract_json text_output = Some json_string \<Longrightarrow>
   loads json_string = Inl (JSONDecodeError detail) \<Longrightarrow>
   process_receipt loads text_output receipt_text
     = ([ErrDecode detail, WriteExtracted json_string, WriteRaw text_output], Inr None)"
  by (simp add: process_receipt_def)

theorem invalid_json_reported_witness:
  \<open>extract_json ''Sure! {"total": 5} ok}'' = Some ''{"total": 5} ok}''
   \<and> process_receipt (\<lambda>s. Inl (JSONDecodeError ''Extra data'')) ''Sure! {"total": 5} ok}''
        ''TOTAL: 5''
     = ([ErrDecode ''Extra data'', WriteExtracted ''{"total": 5} ok}'',
         WriteRaw ''Sure! {"total": 5} ok}''], Inr None)\<close>
proof -
  have h: \<open>extract_json ''Sure! {"total": 5} ok}'' = Some ''{"total": 5} ok}''\<close>
    by (simp add: extract_json_def)
  have l: "(\<lambda>s. Inl (JSONDecodeError ''Extra data'') :: exn + json) json_string
             = Inl (JSONDecodeError ''Extra data'')" for json_string
    by simp
  from invalid_json_reported [OF h l] h show ?thesis by simp
qed

text \<open>
  C8. The repair of an object that the repair returned changes nothing: the total is a
  number, no recovery runs, and the same object comes back.
\<close>

theorem repair_idempotent:
  "repair receipt_text json_output = (ev, Inr r) \<Longrightarrow>
   total_is_number r \<and> repair receipt_text r = ([], Inr r)"
  by (simp add: repair_returns_number repair_number)

theorem repair_idempotent_witness:
  "repair ''no anchor here'' [] = ([WarnMalformedTotal, InfoCalculated (Fin 0)],
                                   Inr [(''total'', JFloat (Fin 0))])
   \<and> repair ''no anchor here'' [(''total'', JFloat (Fin 0))]
       = ([], Inr [(''total'', JFloat (Fin 0))])"
proof -
  have h: "repair ''no anchor here'' [] = ([WarnMalformedTotal, InfoCalculated (Fin 0)],
                                           Inr [(''total'', JFloat (Fin 0))])"
    by code_simp
  from repair_idempotent [OF h] h show ?thesis by simp
qed

text \<open>
  C9. The literal that Path A matches is a non-empty run of digits and points, with any
  number of points; when it is no float (\<^verbatim>\<open>float\<close> raises ValueError), the repair
  sets the total to 0.0 and returns.
\<close>

theorem path_A_literal_and_default:
  assumes "total_search receipt_text = Some g"
  shows "g \<noteq> [] \<and> (\<forall>c\<in>set g. is_digit c \<or> c = CHR ''.'')
    \<and> (\<not> total_is_number json_output \<and> float_of_str g = None \<longrightarrow>
          repair receipt_text json_output
            = ([WarnMalformedTotal], Inr (AList.update ''total'' (JFloat (Fin 0)) json_output)))"
  using total_search_class [OF assms] assms
  by (simp add: repair_not_number is_numch_def)

theorem path_A_literal_and_default_witness:
  "total_search ''TOTAL: 1.2.3'' = Some ''1.2.3''
   \<and> \<not> total_is_number [(''total'', JNull)] \<and> float_of_str ''1.2.3'' = None
   \<and> repair ''TOTAL: 1.2.3'' [(''total'', JNull)]
       = ([WarnMalformedTotal], Inr [(''total'', JFloat (Fin 0))])"
proof -
  have h: "total_search ''TOTAL: 1.2.3'' = Some ''1.2.3''" by code_simp
  have n: "\<not> total_is_number [(''total'', JNull)]" by (simp add: total_is_number_def)
  have f: "float_of_str ''1.2.3'' = None" by code_simp
  show ?thesis
    using path_A_literal_and_default [OF h, of "[(''total'', JNull)]"] h n f by simp
qed

theorem path_A_literal_counterexample:
  "total_search ''TOTAL: 1.2.3'' = Some ''1.2.3'' \<and> count_list ''1.2.3'' (CHR ''.'') = 2"
  by code_simp

text \<open>
  C10. A total that is a JSON boolean passes the test for a number: no recovery runs and
  the object is returned as it is.
\<close>

theorem boolean_total_kept:
  "map_of json_output ''total'' = Some (JBool b) \<Longrightarrow>
   repair receipt_text json_output = ([], Inr json_output)"
  by (simp add: repair_number total_is_number_def)

theorem boolean_total_kept_witness:
  "map_of [(''total'', JBool True)] ''total'' = Some (JBool True)
   \<and> repair ''TOTAL: 21.82'' [(''total'', JBool True)] = ([], Inr [(''total'', JBool True)])"
  using boolean_total_kept [of "[(''total'', JBool True)]" True "''TOTAL: 21.82''"] by simp

end
